theory Spec2Isabelle
  imports Main "HOL-Library.Word"
begin

section \<open>Bytes, errors and the external libraries\<close>

text \<open>
  A Node \<open>Buffer\<close> is a list of bytes. \<open>Buffer.from([n])\<close> keeps the low eight bits of
  \<open>n\<close>, which is what \<open>of_nat\<close> into \<open>8 word\<close> does.
\<close>

type_synonym byte = "8 word"
type_synonym bytes = "byte list"

text \<open>
  Every \<open>throw\<close> is a value. \<open>Error msg\<close> is \<open>throw new Error(msg)\<close> of this repository,
  \<open>RangeError\<close> is raised by the Node built-ins the code calls (\<open>writeUInt32BE\<close>,
  \<open>crypto.timingSafeEqual\<close>), \<open>ExternalError\<close> is an exception of a library or of the
  transport (elliptic, protobufjs, FleetApi).
\<close>

datatype error = Error string | RangeError string | ExternalError string

definition and_then :: "error + 'a \<Rightarrow> ('a \<Rightarrow> error + 'b) \<Rightarrow> error + 'b" where
  "and_then r f = (case r of Inl e \<Rightarrow> Inl e | Inr x \<Rightarrow> f x)"

text \<open>\<open>Buffer.from(str)\<close>: the UTF-8 bytes of a string (a \<open>string\<close> is already a byte list).\<close>

definition utf8 :: "string \<Rightarrow> bytes" where
  "utf8 s = map (\<lambda>c. of_nat (of_char c)) s"

text \<open>
  The cryptographic primitives come from the libraries \<open>elliptic\<close> and \<open>crypto\<close>, which are
  not part of the repository; they are parameters of the model.
  \<^item> \<open>ecdh priv pub\<close> is \<open>ec.keyFromPrivate(priv).derive(ec.keyFromPublic(pub).getPublic())\<close>:
    the x-coordinate of the shared point as a number, \<open>None\<close> when elliptic throws
    (a malformed or invalid point);
  \<^item> \<open>sha1 m\<close> is the SHA-1 digest of \<open>m\<close>;
  \<^item> \<open>hmac_sha256 k m\<close> is the HMAC-SHA256 of \<open>m\<close> under key \<open>k\<close>.
\<close>

record crypto =
  ecdh :: "bytes \<Rightarrow> bytes \<Rightarrow> nat option"
  sha1 :: "bytes \<Rightarrow> bytes"
  hmac_sha256 :: "bytes \<Rightarrow> bytes \<Rightarrow> bytes"

text \<open>
  A streaming \<open>Hmac\<close> object of Node: \<open>createHmac\<close> fixes the key, each \<open>update\<close> appends
  to the message, \<open>digest\<close> is the HMAC of everything absorbed.
\<close>

record Hmac =
  hmac_key :: bytes
  hmac_data :: bytes

definition createHmac :: "bytes \<Rightarrow> Hmac" where
  "createHmac k = \<lparr>hmac_key = k, hmac_data = []\<rparr>"

definition hmac_update :: "bytes \<Rightarrow> Hmac \<Rightarrow> Hmac" where
  "hmac_update d h = h\<lparr>hmac_data := hmac_data h @ d\<rparr>"

definition hmac_digest :: "crypto \<Rightarrow> Hmac \<Rightarrow> bytes" where
  "hmac_digest c h = hmac_sha256 c (hmac_key h) (hmac_data h)"

text \<open>
  \<open>crypto.timingSafeEqual(a, b)\<close> throws a RangeError when the two buffers differ in
  length and otherwise tells whether they are equal.
\<close>

definition timingSafeEqual :: "bytes \<Rightarrow> bytes \<Rightarrow> error + bool" where
  "timingSafeEqual a b =
     (if length a \<noteq> length b
      then Inl (RangeError ''Input buffers must have the same byte length'')
      else Inr (a = b))"

text \<open>
  \<open>buffer.writeUInt32BE(value)\<close> on a fresh 4-byte buffer: a RangeError unless
  \<open>0 \<le> value \<le> 2^32 - 1\<close>, else the four bytes, most significant first.
\<close>

definition writeUInt32BE :: "int \<Rightarrow> error + bytes" where
  "writeUInt32BE v =
     (if 0 \<le> v \<and> v \<le> 4294967295
      then Inr [of_int (v div 16777216), of_int (v div 65536), of_int (v div 256), of_int v]
      else Inl (RangeError ''ERR_OUT_OF_RANGE''))"

text \<open>
  \<open>sharedSecret.toString(16)\<close> (bn.js): the hexadecimal digits of a number, most
  significant first, without leading zeros (one digit \<open>0\<close> for zero). A digit is kept as
  its value \<open>0..15\<close>.
\<close>

function toString16 :: "nat \<Rightarrow> nat list" where
  "toString16 n = (if n < 16 then [n] else toString16 (n div 16) @ [n mod 16])"
  by pat_completeness auto
termination
  by (relation "measure (\<lambda>n. n)") auto

declare toString16.simps [simp del]

text \<open>
  \<open>Buffer.from(digits, 'hex')\<close>: one byte for every two digits; a last digit without a
  partner is dropped.
\<close>

fun Buffer_from_hex :: "nat list \<Rightarrow> bytes" where
  "Buffer_from_hex (a # b # ds) = of_nat (16 * a + b) # Buffer_from_hex ds"
| "Buffer_from_hex _ = []"

section \<open>Signer.js\<close>

text \<open>\<open>EPOCH_LENGTH = (1 << 30)\<close>\<close>

definition EPOCH_LENGTH :: int where
  "EPOCH_LENGTH = 2 ^ 30"

text \<open>
  The enum values of \<open>proto/signatures.proto\<close> and \<open>proto/universal_message.proto\<close>, which
  the code reads through \<open>lookupEnum(...).values\<close>. The schema files are not among the
  sources, so the values are parameters.
\<close>

record enums =
  TAG_SIGNATURE_TYPE :: nat
  TAG_DOMAIN :: nat
  TAG_PERSONALIZATION :: nat
  TAG_EPOCH :: nat
  TAG_EXPIRES_AT :: nat
  TAG_COUNTER :: nat
  TAG_CHALLENGE :: nat
  SIGNATURE_TYPE_HMAC :: nat
  SIGNATURE_TYPE_HMAC_PERSONALIZED :: nat
  DOMAIN_INFOTAINMENT :: nat

subsection \<open>class Metadata\<close>

record Metadata =
  hmac_context :: Hmac
  fields_m :: "nat \<rightharpoonup> bool"
  last_tag :: nat

definition new_Metadata :: "Hmac \<Rightarrow> Metadata" where
  "new_Metadata h = \<lparr>hmac_context = h, fields_m = Map.empty, last_tag = 0\<rparr>"

text \<open>\<open>add(tag, value)\<close>; \<open>None\<close> is the value \<open>null\<close>.\<close>

definition Metadata_add :: "nat \<Rightarrow> bytes option \<Rightarrow> Metadata \<Rightarrow> error + Metadata" where
  "Metadata_add tag val m =
     (if tag < last_tag m
      then Inl (Error ''metadata items need to be added in increasing tag order'')
      else case val of
        None \<Rightarrow> Inr m
      | Some v \<Rightarrow>
          if length v > 255
          then Inl (Error ''metadata fields can't be more than 255 bytes long'')
          else Inr (m\<lparr>last_tag := tag,
                      hmac_context :=
                        hmac_update v
                          (hmac_update [of_nat (length v)]
                            (hmac_update [of_nat tag] (hmac_context m))),
                      fields_m := (fields_m m)(tag \<mapsto> True)\<rparr>))"

definition Metadata_addUint32 :: "nat \<Rightarrow> int \<Rightarrow> Metadata \<Rightarrow> error + Metadata" where
  "Metadata_addUint32 tag v m =
     and_then (writeUInt32BE v) (\<lambda>buffer. Metadata_add tag (Some buffer) m)"

definition Metadata_checksum :: "crypto \<Rightarrow> bytes \<Rightarrow> Metadata \<Rightarrow> bytes" where
  "Metadata_checksum c message m =
     hmac_digest c (hmac_update message (hmac_update [255] (hmac_context m)))"

subsection \<open>class AuthSession\<close>

text \<open>The key object handed to \<open>CarServer\<close> (\<open>eckey.parsePem\<close>).\<close>

record keypair =
  privateKey :: bytes
  publicKey :: bytes

record AuthSession =
  key :: bytes
  localPublic :: bytes

definition new_AuthSession :: "crypto \<Rightarrow> keypair \<Rightarrow> bytes \<Rightarrow> error + AuthSession" where
  "new_AuthSession c k serverPublicKey =
     (case ecdh c (privateKey k) serverPublicKey of
        None \<Rightarrow> Inl (ExternalError ''elliptic'')
      | Some sharedSecret \<Rightarrow>
          Inr \<lparr>key = take 16 (sha1 c (Buffer_from_hex (toString16 sharedSecret))),
               localPublic = publicKey k\<rparr>)"

definition newHMAC :: "crypto \<Rightarrow> AuthSession \<Rightarrow> string \<Rightarrow> Hmac" where
  "newHMAC c s label =
     createHmac (hmac_digest c (hmac_update (utf8 label) (createHmac (key s))))"

subsection \<open>class Signer\<close>

text \<open>
  The decoded \<open>Signatures.SessionInfo\<close> message. protobufjs gives an absent field its
  default (empty bytes, zero), and the constructor reads the fields without asking
  whether they were present. \<open>clockTime\<close> and \<open>counter\<close> are 32-bit unsigned fields.
\<close>

record SessionInfo =
  si_publicKey :: bytes
  si_clockTime :: nat
  si_epoch :: bytes
  si_counter :: nat

text \<open>
  JavaScript numbers that hold integers are \<open>int\<close>: the counter starts below \<open>2^32\<close> and
  grows by one for each signature, far from \<open>2^53\<close>, where a double stops being exact.
\<close>

record Signer =
  session :: AuthSession
  verifierName :: string
  timeZero :: int
  epoch :: bytes
  counter :: int

text \<open>
  \<open>now_ms\<close> is the value of \<open>Date.now()\<close>. \<open>Buffer.from(buf, 0, 16)\<close> on a Buffer copies the
  whole of it (offset and length apply to an ArrayBuffer only).
\<close>

definition new_Signer :: "crypto \<Rightarrow> nat \<Rightarrow> keypair \<Rightarrow> string \<Rightarrow> SessionInfo \<Rightarrow> error + Signer" where
  "new_Signer c now_ms k name info =
     and_then (new_AuthSession c k (si_publicKey info)) (\<lambda>s.
       Inr \<lparr>session = s,
            verifierName = name,
            timeZero = int (now_ms div 1000) - int (si_clockTime info),
            epoch = si_epoch info,
            counter = int (si_counter info)\<rparr>)"

definition validateSessionInfo ::
  "crypto \<Rightarrow> enums \<Rightarrow> bytes \<Rightarrow> bytes \<Rightarrow> bytes \<Rightarrow> Signer \<Rightarrow> error + bool" where
  "validateSessionInfo c p encodedSessionInfo challenge tag s =
     and_then (Metadata_add (TAG_SIGNATURE_TYPE p) (Some [of_nat (SIGNATURE_TYPE_HMAC p)])
                 (new_Metadata (newHMAC c (session s) ''session info''))) (\<lambda>m1.
     and_then (Metadata_add (TAG_PERSONALIZATION p) (Some (utf8 (verifierName s))) m1) (\<lambda>m2.
     and_then (Metadata_add (TAG_CHALLENGE p) (Some challenge) m2) (\<lambda>m3.
       timingSafeEqual (Metadata_checksum c encodedSessionInfo m3) tag)))"

record HMAC_PersonalizedData =
  hp_epoch :: bytes
  hp_counter :: int
  hp_expiresAt :: int
  hp_tag :: bytes

record SessionInfoTag =
  sit_tag :: "bytes option"

text \<open>
  \<open>signatureData\<close>: the object \<open>generateSignature\<close> returns has \<open>signerIdentity\<close> and
  \<open>HMAC_PersonalizedData\<close>; a handshake response carries \<open>sessionInfoTag\<close>.
\<close>

record SignatureData =
  signerIdentity :: "bytes option"
  HMAC_Personalized_Data :: "HMAC_PersonalizedData option"
  sessionInfoTag :: "SessionInfoTag option"

text \<open>
  \<open>generateSignature(encodedPayload, domain, expiresIn)\<close> returns its result together with
  the Signer after the call: the counter is incremented before anything can throw.
\<close>

definition generateSignature ::
  "crypto \<Rightarrow> enums \<Rightarrow> nat \<Rightarrow> bytes \<Rightarrow> nat \<Rightarrow> int \<Rightarrow> Signer \<Rightarrow> (error + SignatureData) \<times> Signer" where
  "generateSignature c p now_ms encodedPayload domain_id expiresIn s0 =
     (let s = s0\<lparr>counter := counter s0 + 1\<rparr> in
      (and_then (Metadata_add (TAG_SIGNATURE_TYPE p)
                   (Some [of_nat (SIGNATURE_TYPE_HMAC_PERSONALIZED p)])
                   (new_Metadata (newHMAC c (session s) ''authenticated command''))) (\<lambda>m1.
       and_then (Metadata_add (TAG_DOMAIN p) (Some [of_nat domain_id]) m1) (\<lambda>m2.
       and_then (Metadata_add (TAG_PERSONALIZATION p) (Some (utf8 (verifierName s))) m2) (\<lambda>m3.
         let expiresAt = int (now_ms div 1000) + expiresIn - timeZero s in
         if expiresAt > EPOCH_LENGTH \<or> expiresAt < 0
         then Inl (Error ''out of bounds expiration time'')
         else
           and_then (Metadata_add (TAG_EPOCH p) (Some (epoch s)) m3) (\<lambda>m4.
           and_then (Metadata_addUint32 (TAG_EXPIRES_AT p) expiresAt m4) (\<lambda>m5.
           and_then (Metadata_addUint32 (TAG_COUNTER p) (counter s) m5) (\<lambda>m6.
             Inr \<lparr>signerIdentity = Some (localPublic (session s)),
                  HMAC_Personalized_Data =
                    Some \<lparr>hp_epoch = epoch s,
                          hp_counter = counter s,
                          hp_expiresAt = expiresAt,
                          hp_tag = Metadata_checksum c encodedPayload m6\<rparr>,
                  sessionInfoTag = None\<rparr>)))))),
       s))"

section \<open>CarServer.js\<close>

text \<open>
  Modelled from the spec: the enum \<open>CarServer.OperationStatus_E\<close> of
  \<open>proto/car_server.proto\<close>, which is not among the sources. The spec gives the status enum
  as \<open>{OK, ERROR}\<close>; protobufjs keeps a number it does not know as it is.
\<close>

datatype OperationStatus_E =
  OPERATIONSTATUS_OK | OPERATIONSTATUS_ERROR | OPERATIONSTATUS_unrecognized nat

text \<open>
  Decoded messages. A field is \<open>Some\<close> exactly when \<open>hasOwnProperty\<close> holds for it, that
  is, when it was present on the wire.
\<close>

record ResultReason =
  plainText :: "string option"

record ActionStatus =
  result :: "OperationStatus_E option"
  resultReason :: "ResultReason option"

record Response =
  actionStatus :: "ActionStatus option"

record Destination =
  domain :: "nat option"
  routingAddress :: "bytes option"

record RoutableMessage =
  toDestination :: "Destination option"
  fromDestination :: "Destination option"
  protobufMessageAsBytes :: "bytes option"
  sessionInfo :: "bytes option"
  signatureData :: "SignatureData option"
  requestUuid :: "bytes option"

text \<open>
  The object literal that \<open>startSession\<close> and \<open>#requestAction\<close> hand to \<open>#sendRequest\<close>:
  both give \<open>toDestination.domain\<close>, \<open>fromDestination.routingAddress\<close> and \<open>uuid\<close>.
\<close>

record Request =
  req_toDestination_domain :: nat
  req_fromDestination_routingAddress :: bytes
  req_sessionInfoRequest :: "bytes option"
  req_protobufMessageAsBytes :: "bytes option"
  req_signatureData :: "SignatureData option"
  req_uuid :: bytes
  req_flags :: "nat option"

datatype VehicleAction = chargingSetLimitAction int

text \<open>
  The protobufjs encoders and decoders of the three schema types; \<open>None\<close> is a decoder
  that throws. The schemas are not among the sources, so these are parameters.
\<close>

record codec =
  sessionInfoProto_decode :: "bytes \<Rightarrow> SessionInfo option"
  carServerResponseProto_decode :: "bytes \<Rightarrow> Response option"
  actionProto_encode :: "VehicleAction \<Rightarrow> bytes"

text \<open>
  \<open>api_sent\<close> is the trace of the calls \<open>this.api.signedCommand(vin, buffer)\<close> made so far
  (the message before encoding).
\<close>

record CarServer =
  api_sent :: "(string \<times> Request) list"
  vin :: string
  privateKey_cs :: keypair
  signer :: "Signer option"

definition new_CarServer :: "string \<Rightarrow> keypair \<Rightarrow> CarServer" where
  "new_CarServer v k = \<lparr>api_sent = [], vin = v, privateKey_cs = k, signer = None\<rparr>"

datatype SendResult = SessionInfoResult SessionInfo | ResponseResult Response

text \<open>
  Lines 42 to 60 of \<open>#sendRequest\<close>, after the checks of the envelope: a response with
  \<open>sessionInfo\<close> and \<open>signatureData\<close> installs a new Signer and validates it; one with
  \<open>protobufMessageAsBytes\<close> is decoded and returned.
\<close>

definition sendRequest_dispatch ::
  "crypto \<Rightarrow> enums \<Rightarrow> codec \<Rightarrow> nat \<Rightarrow> RoutableMessage \<Rightarrow> bytes \<Rightarrow> CarServer
     \<Rightarrow> (error + SendResult) \<times> CarServer" where
  "sendRequest_dispatch c p k now_ms res uuid cs =
     (case (sessionInfo res, signatureData res) of
        (Some info_bytes, Some sd) \<Rightarrow>
          (case (case sessionInfoTag sd of None \<Rightarrow> None | Some t \<Rightarrow> sit_tag t) of
             None \<Rightarrow> (Inl (Error ''Missing sessionInfo tag''), cs)
           | Some tag \<Rightarrow>
               (case sessionInfoProto_decode k info_bytes of
                  None \<Rightarrow> (Inl (ExternalError ''protobuf''), cs)
                | Some info \<Rightarrow>
                    (case new_Signer c now_ms (privateKey_cs cs) (vin cs) info of
                       Inl e \<Rightarrow> (Inl e, cs)
                     | Inr sg \<Rightarrow>
                         (case validateSessionInfo c p info_bytes uuid tag sg of
                            Inl e \<Rightarrow> (Inl e, cs\<lparr>signer := Some sg\<rparr>)
                          | Inr False \<Rightarrow>
                              (Inl (Error ''Session info hmac invalid''), cs\<lparr>signer := None\<rparr>)
                          | Inr True \<Rightarrow>
                              (Inr (SessionInfoResult info), cs\<lparr>signer := Some sg\<rparr>)))))
      | _ \<Rightarrow>
          (case protobufMessageAsBytes res of
             Some b \<Rightarrow>
               (case carServerResponseProto_decode k b of
                  None \<Rightarrow> (Inl (ExternalError ''protobuf''), cs)
                | Some r \<Rightarrow> (Inr (ResponseResult r), cs))
           | None \<Rightarrow> (Inl (Error ''Invalid response''), cs)))"

text \<open>
  \<open>#sendRequest(req)\<close>. \<open>reply\<close> is what the round trip gives: \<open>Inl\<close> when
  \<open>signedCommand\<close> or \<open>msgProto.decode\<close> throws, else the decoded response.
  \<open>now_ms\<close> is \<open>Date.now()\<close> at the time the response is handled.
\<close>

definition sendRequest ::
  "crypto \<Rightarrow> enums \<Rightarrow> codec \<Rightarrow> nat \<Rightarrow> error + RoutableMessage \<Rightarrow> Request \<Rightarrow> CarServer
     \<Rightarrow> (error + SendResult) \<times> CarServer" where
  "sendRequest c p k now_ms reply req cs0 =
     (let cs = cs0\<lparr>api_sent := api_sent cs0 @ [(vin cs0, req)]\<rparr> in
      case reply of
        Inl e \<Rightarrow> (Inl e, cs)
      | Inr res \<Rightarrow>
          (case fromDestination res of
             None \<Rightarrow> (Inl (Error ''Missing response source''), cs)
           | Some src \<Rightarrow>
               if (case domain src of None \<Rightarrow> True
                   | Some d \<Rightarrow> d \<noteq> req_toDestination_domain req)
               then (Inl (Error ''Invalid source domain''), cs)
               else
                 (case toDestination res of
                    None \<Rightarrow> (Inl (Error ''Missing response destination''), cs)
                  | Some dst \<Rightarrow>
                      if (case routingAddress dst of None \<Rightarrow> True
                          | Some a \<Rightarrow> a \<noteq> req_fromDestination_routingAddress req)
                      then (Inl (Error ''Invalid destination address''), cs)
                      else
                        (case requestUuid res of
                           None \<Rightarrow> (Inl (Error ''Missing request UUID''), cs)
                         | Some uuid \<Rightarrow> sendRequest_dispatch c p k now_ms res uuid cs))))"

text \<open>
  \<open>startSession()\<close>; \<open>addr\<close> and \<open>uuid\<close> are the two results of \<open>randomBytes(16)\<close>. The
  value \<open>#sendRequest\<close> returns is dropped.
\<close>

definition startSession ::
  "crypto \<Rightarrow> enums \<Rightarrow> codec \<Rightarrow> nat \<Rightarrow> bytes \<Rightarrow> bytes \<Rightarrow> error + RoutableMessage \<Rightarrow> CarServer
     \<Rightarrow> (error + unit) \<times> CarServer" where
  "startSession c p k now_ms addr uuid reply cs =
     (case sendRequest c p k now_ms reply
             \<lparr>req_toDestination_domain = DOMAIN_INFOTAINMENT p,
              req_fromDestination_routingAddress = addr,
              req_sessionInfoRequest = Some (publicKey (privateKey_cs cs)),
              req_protobufMessageAsBytes = None,
              req_signatureData = None,
              req_uuid = uuid,
              req_flags = None\<rparr> cs of
        (Inl e, cs') \<Rightarrow> (Inl e, cs')
      | (Inr _, cs') \<Rightarrow> (Inr (), cs'))"

definition decodeError :: "ResultReason \<Rightarrow> error + string" where
  "decodeError r =
     (case plainText r of
        Some t \<Rightarrow> Inr t
      | None \<Rightarrow> Inl (Error ''Unknown result Reason''))"

text \<open>
  Lines 90 to 102 of \<open>#requestAction\<close>: what the call does with the value that
  \<open>#sendRequest\<close> returned. A decoded \<open>SessionInfo\<close> has no \<open>actionStatus\<close>.
\<close>

definition requestAction_status :: "SendResult \<Rightarrow> error + unit" where
  "requestAction_status response =
     (case response of
        SessionInfoResult _ \<Rightarrow> Inr ()
      | ResponseResult r \<Rightarrow>
          (case actionStatus r of
             None \<Rightarrow> Inr ()
           | Some st \<Rightarrow>
               (case result st of
                  None \<Rightarrow> Inr ()
                | Some OPERATIONSTATUS_OK \<Rightarrow> Inr ()
                | Some OPERATIONSTATUS_ERROR \<Rightarrow>
                    (case resultReason st of
                       Some reason \<Rightarrow>
                         and_then (decodeError reason) (\<lambda>t. Inl (Error t))
                     | None \<Rightarrow> Inl (Error ''Unknown error''))
                | Some (OPERATIONSTATUS_unrecognized _) \<Rightarrow>
                    Inl (Error ''Invalid CarServer action result''))))"

text \<open>
  \<open>#requestAction(action)\<close>. \<open>now_sign\<close> is \<open>Date.now()\<close> inside \<open>generateSignature\<close>,
  \<open>now_ms\<close> the one when the response is handled; \<open>addr\<close> and \<open>uuid\<close> are the results of
  \<open>randomBytes(16)\<close>. \<open>generateSignature\<close> changes the Signer object in place.
\<close>

definition requestAction ::
  "crypto \<Rightarrow> enums \<Rightarrow> codec \<Rightarrow> nat \<Rightarrow> nat \<Rightarrow> bytes \<Rightarrow> bytes \<Rightarrow> error + RoutableMessage
     \<Rightarrow> VehicleAction \<Rightarrow> CarServer \<Rightarrow> (error + unit) \<times> CarServer" where
  "requestAction c p k now_sign now_ms addr uuid reply action cs =
     (case signer cs of
        None \<Rightarrow> (Inl (Error ''Session not started''), cs)
      | Some sg \<Rightarrow>
          (let encodedPayload = actionProto_encode k action in
           case generateSignature c p now_sign encodedPayload (DOMAIN_INFOTAINMENT p) 5 sg of
             (Inl e, sg') \<Rightarrow> (Inl e, cs\<lparr>signer := Some sg'\<rparr>)
           | (Inr signature, sg') \<Rightarrow>
               (case sendRequest c p k now_ms reply
                       \<lparr>req_toDestination_domain = DOMAIN_INFOTAINMENT p,
                        req_fromDestination_routingAddress = addr,
                        req_sessionInfoRequest = None,
                        req_protobufMessageAsBytes = Some encodedPayload,
                        req_signatureData = Some signature,
                        req_uuid = uuid,
                        req_flags = Some 0\<rparr> (cs\<lparr>signer := Some sg'\<rparr>) of
                  (Inl e, cs') \<Rightarrow> (Inl e, cs')
                | (Inr response, cs') \<Rightarrow> (requestAction_status response, cs'))))"

definition chargingSetLimit ::
  "crypto \<Rightarrow> enums \<Rightarrow> codec \<Rightarrow> nat \<Rightarrow> nat \<Rightarrow> bytes \<Rightarrow> bytes \<Rightarrow> error + RoutableMessage
     \<Rightarrow> int \<Rightarrow> CarServer \<Rightarrow> (error + unit) \<times> CarServer" where
  "chargingSetLimit c p k now_sign now_ms addr uuid reply percent cs =
     requestAction c p k now_sign now_ms addr uuid reply (chargingSetLimitAction percent) cs"

section \<open>Sequences of calls, and what the code expects of its parameters\<close>

text \<open>
  A sequence of \<open>add\<close> calls on one Metadata object; the first call that throws ends it.
\<close>

fun Metadata_add_all :: "(nat \<times> bytes) list \<Rightarrow> Metadata \<Rightarrow> error + Metadata" where
  "Metadata_add_all [] m = Inr m"
| "Metadata_add_all ((tag, v) # es) m =
     and_then (Metadata_add tag (Some v) m) (Metadata_add_all es)"

text \<open>
  The record that the specification describes for one entry: one byte of tag, one byte of
  length, the bytes of the value.
\<close>

definition entry_record :: "nat \<times> bytes \<Rightarrow> bytes" where
  "entry_record e = of_nat (fst e) # of_nat (length (snd e)) # snd e"

text \<open>
  \<open>generateSignature\<close> adds its six entries in this order of tags, and \<open>add\<close> throws on
  a tag below the one before it: the code is written for a Tag enum that numbers them
  in this order.
\<close>

definition command_tags_ordered :: "enums \<Rightarrow> bool" where
  "command_tags_ordered p \<longleftrightarrow>
     TAG_SIGNATURE_TYPE p \<le> TAG_DOMAIN p \<and> TAG_DOMAIN p \<le> TAG_PERSONALIZATION p
     \<and> TAG_PERSONALIZATION p \<le> TAG_EPOCH p \<and> TAG_EPOCH p \<le> TAG_EXPIRES_AT p
     \<and> TAG_EXPIRES_AT p \<le> TAG_COUNTER p"

text \<open>
  A sequence of calls of \<open>generateSignature\<close> on one Signer, each with its own clock
  reading, payload, domain and time to live. Every call leaves its result and the
  Signer after it; a call that throws does not end the sequence, since the caller may
  catch the error and go on using the Signer.
\<close>

fun generateSignature_seq ::
  "crypto \<Rightarrow> enums \<Rightarrow> (nat \<times> bytes \<times> nat \<times> int) list \<Rightarrow> Signer
     \<Rightarrow> ((error + SignatureData) \<times> Signer) list" where
  "generateSignature_seq c p [] s = []"
| "generateSignature_seq c p ((now_ms, encodedPayload, domain_id, expiresIn) # calls) s =
     generateSignature c p now_ms encodedPayload domain_id expiresIn s
       # generateSignature_seq c p calls
           (snd (generateSignature c p now_ms encodedPayload domain_id expiresIn s))"

text \<open>
  \<open>validateSessionInfo\<close> adds its three entries in this order of tags.
\<close>

definition handshake_tags_ordered :: "enums \<Rightarrow> bool" where
  "handshake_tags_ordered p \<longleftrightarrow>
     TAG_SIGNATURE_TYPE p \<le> TAG_PERSONALIZATION p \<and> TAG_PERSONALIZATION p \<le> TAG_CHALLENGE p"

text \<open>
  The key that \<open>new AuthSession(key, serverPublicKey)\<close> leaves in \<open>this.key\<close>, or the
  error of the constructor.
\<close>

definition AuthSession_key :: "crypto \<Rightarrow> keypair \<Rightarrow> bytes \<Rightarrow> error + bytes" where
  "AuthSession_key c k serverPublicKey =
     and_then (new_AuthSession c k serverPublicKey) (\<lambda>s. Inr (key s))"

text \<open>
  The three conditions on a response that the specification lists, for a request sent
  to domain \<open>d\<close> from routing address \<open>addr\<close>: (a) the source domain of the response is
  \<open>d\<close>, (b) its destination routing address is \<open>addr\<close>, (c) it has a request identifier.
\<close>

definition provenance_ok :: "nat \<Rightarrow> bytes \<Rightarrow> RoutableMessage \<Rightarrow> bool" where
  "provenance_ok d addr res \<longleftrightarrow>
     (case fromDestination res of None \<Rightarrow> False | Some src \<Rightarrow> domain src = Some d)
     \<and> (case toDestination res of None \<Rightarrow> False | Some dst \<Rightarrow> routingAddress dst = Some addr)
     \<and> requestUuid res \<noteq> None"

text \<open>
  A response to a command that passes these conditions, is not a handshake response,
  and whose payload decodes to \<open>r\<close>.
\<close>

definition command_response ::
  "enums \<Rightarrow> codec \<Rightarrow> bytes \<Rightarrow> RoutableMessage \<Rightarrow> Response \<Rightarrow> bool" where
  "command_response p k addr res r \<longleftrightarrow>
     provenance_ok (DOMAIN_INFOTAINMENT p) addr res
     \<and> (sessionInfo res = None \<or> signatureData res = None)
     \<and> (case protobufMessageAsBytes res of
           None \<Rightarrow> False
         | Some b \<Rightarrow> carServerResponseProto_decode k b = Some r)"

section \<open>A concrete instance of the parameters\<close>

text \<open>
  Small stand-ins for the library functions, on which the model can be evaluated: a
  Diffie-Hellman exchange in the additive group modulo 251 on one-byte keys, and digests
  that pad or cut their input to the digest length (20 bytes for SHA-1, 32 bytes for
  HMAC-SHA256). The enum values are those of the vehicle-command protocol.
\<close>

definition ex_crypto :: crypto where
  "ex_crypto =
     \<lparr>ecdh = (\<lambda>priv pub. case (priv, pub) of
                 ([a], [q]) \<Rightarrow> Some (unat a * unat q mod 251)
               | _ \<Rightarrow> None),
      sha1 = (\<lambda>m. take 20 (m @ [0, 0, 0, 0, 0, 0, 0, 0, 0, 0, 0, 0, 0, 0, 0, 0, 0, 0, 0, 0])),
      hmac_sha256 = (\<lambda>k m. take 32 (k @ m @
          [0, 0, 0, 0, 0, 0, 0, 0, 0, 0, 0, 0, 0, 0, 0, 0,
           0, 0, 0, 0, 0, 0, 0, 0, 0, 0, 0, 0, 0, 0, 0, 0]))\<rparr>"

definition ex_enums :: enums where
  "ex_enums =
     \<lparr>TAG_SIGNATURE_TYPE = 0, TAG_DOMAIN = 1, TAG_PERSONALIZATION = 2, TAG_EPOCH = 3,
      TAG_EXPIRES_AT = 4, TAG_COUNTER = 5, TAG_CHALLENGE = 6,
      SIGNATURE_TYPE_HMAC = 6, SIGNATURE_TYPE_HMAC_PERSONALIZED = 8,
      DOMAIN_INFOTAINMENT = 3\<rparr>"

definition ex_signer :: Signer where
  "ex_signer =
     \<lparr>session = \<lparr>key = [105, 0, 0, 0, 0, 0, 0, 0, 0, 0, 0, 0, 0, 0, 0, 0], localPublic = [21]\<rparr>,
      verifierName = ''5YJ3E1EA7JF000001'',
      timeZero = 0,
      epoch = [1, 2, 3, 4, 5, 6, 7, 8, 9, 10, 11, 12, 13, 14, 15, 16],
      counter = 10\<rparr>"

text \<open>
  A key pair of the stand-in exchange, decoders that read a few fixed byte strings,
  a car with an established session, and responses as the transport would deliver them.
\<close>

definition ex_key :: keypair where
  "ex_key = \<lparr>privateKey = [3], publicKey = [21]\<rparr>"

definition ex_ok_response :: Response where
  "ex_ok_response =
     \<lparr>actionStatus = Some \<lparr>result = Some OPERATIONSTATUS_OK, resultReason = None\<rparr>\<rparr>"

definition ex_error_response :: Response where
  "ex_error_response =
     \<lparr>actionStatus =
        Some \<lparr>result = Some OPERATIONSTATUS_ERROR,
              resultReason = Some \<lparr>plainText = Some ''precondition_failed''\<rparr>\<rparr>\<rparr>"

definition ex_codec :: codec where
  "ex_codec =
     \<lparr>sessionInfoProto_decode = (\<lambda>b. case b of
          pk # clock # cnt # ep \<Rightarrow>
            Some \<lparr>si_publicKey = [pk], si_clockTime = unat clock, si_epoch = ep,
                  si_counter = unat cnt\<rparr>
        | _ \<Rightarrow> None),
      carServerResponseProto_decode = (\<lambda>b.
          if b = [] then Some \<lparr>actionStatus = None\<rparr>
          else if b = [0] then Some ex_ok_response
          else if b = [1] then Some ex_error_response
          else None),
      actionProto_encode = (\<lambda>a. case a of chargingSetLimitAction percent \<Rightarrow> [of_int percent])\<rparr>"

definition ex_car :: CarServer where
  "ex_car = (new_CarServer ''5YJ3E1EA7JF000001'' ex_key)\<lparr>signer := Some ex_signer\<rparr>"

definition ex_command_reply :: "bytes \<Rightarrow> RoutableMessage" where
  "ex_command_reply b =
     \<lparr>toDestination = Some \<lparr>domain = None, routingAddress = Some [7, 7, 7, 7]\<rparr>,
      fromDestination = Some \<lparr>domain = Some 3, routingAddress = None\<rparr>,
      protobufMessageAsBytes = Some b,
      sessionInfo = None,
      signatureData = None,
      requestUuid = Some [9, 9, 9, 9]\<rparr>"

definition ex_handshake_reply :: "bytes \<Rightarrow> RoutableMessage" where
  "ex_handshake_reply tag =
     \<lparr>toDestination = Some \<lparr>domain = None, routingAddress = Some [7, 7, 7, 7]\<rparr>,
      fromDestination = Some \<lparr>domain = Some 3, routingAddress = None\<rparr>,
      protobufMessageAsBytes = None,
      sessionInfo = Some [35, 100, 10, 1, 2, 3, 4, 5, 6, 7, 8, 9, 10, 11, 12, 13, 14, 15, 16],
      signatureData =
        Some \<lparr>signerIdentity = None, HMAC_Personalized_Data = None,
              sessionInfoTag = Some \<lparr>sit_tag = Some tag\<rparr>\<rparr>,
      requestUuid = Some [9, 9, 9, 9]\<rparr>"

section \<open>The tagged checksum\<close>

text \<open>
  C6. \<open>add(tag, value)\<close> makes its checks in the order in which the claim lists them.
  It fails with the out-of-order error exactly when the tag is smaller than the last
  tag added, whatever the value; a tag equal to the last tag added passes this check.
  Past it, an absent value leaves the builder as it was, and the call fails with the
  oversized-field error exactly when the value is longer than 255 bytes; so the call
  fails exactly when the tag is too small or the value is too long. A value of at most
  255 bytes is absorbed as the record of tag byte, length byte and value, and its tag
  becomes the last tag added: the next call fails with the out-of-order error exactly
  when its tag is smaller than this one.
\<close>

theorem Metadata_add_errors:
  "(Metadata_add tag val m
      = Inl (Error ''metadata items need to be added in increasing tag order''))
       = (tag < last_tag m)
   \<and> (last_tag m \<le> tag \<longrightarrow> Metadata_add tag None m = Inr m)
   \<and> (Metadata_add tag val m = Inl (Error ''metadata fields can't be more than 255 bytes long''))
       = (last_tag m \<le> tag \<and> (\<exists>v. val = Some v \<and> 255 < length v))
   \<and> isl (Metadata_add tag val m)
       = (tag < last_tag m \<or> (\<exists>v. val = Some v \<and> 255 < length v))
   \<and> (length v \<le> 255 \<longrightarrow>
        (\<exists>m'. Metadata_add (last_tag m) (Some v) m = Inr m' \<and> last_tag m' = last_tag m))
   \<and> Metadata_add (last_tag m) val m
       \<noteq> Inl (Error ''metadata items need to be added in increasing tag order'')
   \<and> (last_tag m \<le> tag \<and> length v \<le> 255 \<longrightarrow>
        Metadata_add tag (Some v) m
          = Inr (m\<lparr>last_tag := tag,
                   hmac_context :=
                     hmac_update (of_nat tag # of_nat (length v) # v) (hmac_context m),
                   fields_m := (fields_m m)(tag \<mapsto> True)\<rparr>))
   \<and> (\<forall>m'. last_tag m \<le> tag \<and> Metadata_add tag (Some v) m = Inr m' \<longrightarrow>
        last_tag m' = tag
        \<and> (Metadata_add tag' val' m'
             = Inl (Error ''metadata items need to be added in increasing tag order''))
            = (tag' < tag))"
  by (auto simp: Metadata_add_def hmac_update_def split: option.splits if_splits)

theorem Metadata_add_errors_witness:
  "last_tag \<lparr>hmac_context = createHmac [1, 2], fields_m = Map.empty, last_tag = 5\<rparr> \<le> 5
   \<and> length [7, 8 :: byte] \<le> 255
   \<and> Metadata_add 5 None \<lparr>hmac_context = createHmac [1, 2], fields_m = Map.empty, last_tag = 5\<rparr>
       = Inr \<lparr>hmac_context = createHmac [1, 2], fields_m = Map.empty, last_tag = 5\<rparr>
   \<and> (\<exists>m'. Metadata_add 5 (Some [7, 8])
               \<lparr>hmac_context = createHmac [1, 2], fields_m = Map.empty, last_tag = 5\<rparr> = Inr m'
            \<and> last_tag m' = 5)
   \<and> Metadata_add 4 (Some [7, 8])
        \<lparr>hmac_context = createHmac [1, 2], fields_m = Map.empty, last_tag = 5\<rparr>
       = Inl (Error ''metadata items need to be added in increasing tag order'')
   \<and> Metadata_add 6 (Some [7, 8])
        \<lparr>hmac_context = createHmac [1, 2], fields_m = Map.empty, last_tag = 5\<rparr>
       = Inr \<lparr>hmac_context = \<lparr>hmac_key = [1, 2], hmac_data = [6, 2, 7, 8]\<rparr>,
              fields_m = [6 \<mapsto> True], last_tag = 6\<rparr>
   \<and> Metadata_add 5 (Some [9])
        \<lparr>hmac_context = \<lparr>hmac_key = [1, 2], hmac_data = [6, 2, 7, 8]\<rparr>,
         fields_m = [6 \<mapsto> True], last_tag = 6\<rparr>
       = Inl (Error ''metadata items need to be added in increasing tag order'')"
proof -
  let ?m = "\<lparr>hmac_context = createHmac [1, 2], fields_m = Map.empty, last_tag = 5\<rparr>"
  let ?m6 = "\<lparr>hmac_context = \<lparr>hmac_key = [1, 2], hmac_data = [6, 2, 7, 8 :: byte]\<rparr>,
              fields_m = [6 \<mapsto> True], last_tag = 6\<rparr>"
  note a = Metadata_add_errors [where tag = 5 and val = None and m = ?m and v = "[7, 8]"]
  note b = Metadata_add_errors [where tag = 4 and val = "Some [7, 8]" and m = ?m and v = "[]"]
  note c = Metadata_add_errors [where tag = 6 and m = ?m and v = "[7, 8]" and tag' = 5
             and val' = "Some [9]"]
  have le: "last_tag ?m \<le> 6" "length [7, 8 :: byte] \<le> 255" by simp_all
  have rec: "?m\<lparr>last_tag := 6,
                hmac_context := hmac_update (of_nat 6 # of_nat (length [7, 8 :: byte]) # [7, 8])
                                  (hmac_context ?m),
                fields_m := (fields_m ?m)(6 \<mapsto> True)\<rparr> = ?m6"
    by (simp add: createHmac_def hmac_update_def)
  have "Metadata_add 6 (Some [7, 8]) ?m
          = Inr (?m\<lparr>last_tag := 6,
                hmac_context := hmac_update (of_nat 6 # of_nat (length [7, 8 :: byte]) # [7, 8])
                                  (hmac_context ?m),
                fields_m := (fields_m ?m)(6 \<mapsto> True)\<rparr>)"
    using c le by blast
  then have six: "Metadata_add 6 (Some [7, 8]) ?m = Inr ?m6"
    unfolding rec .
  have "(Metadata_add 5 (Some [9]) ?m6
          = Inl (Error ''metadata items need to be added in increasing tag order''))
        = ((5::nat) < 6)"
    using c le(1) six by blast
  then have after: "Metadata_add 5 (Some [9]) ?m6
       = Inl (Error ''metadata items need to be added in increasing tag order'')"
    by simp
  have five: "Metadata_add 5 None ?m = Inr ?m"
    "\<exists>m'. Metadata_add 5 (Some [7, 8]) ?m = Inr m' \<and> last_tag m' = 5"
    using a by simp_all
  have four: "Metadata_add 4 (Some [7, 8]) ?m
       = Inl (Error ''metadata items need to be added in increasing tag order'')"
    using b by simp
  show ?thesis
    using five four six after by simp
qed

lemma Metadata_add_all_absorbs:
  "sorted (map fst es) \<Longrightarrow> \<forall>e \<in> set es. length (snd e) \<le> 255 \<and> last_tag m \<le> fst e \<Longrightarrow>
   \<exists>m'. Metadata_add_all es m = Inr m'
      \<and> hmac_context m' = hmac_update (concat (map entry_record es)) (hmac_context m)"
proof (induction es arbitrary: m)
  case Nil
  then show ?case by (simp add: hmac_update_def)
next
  case (Cons e es)
  obtain tag v where e: "e = (tag, v)" by (cases e)
  from Cons.prems have ok: "length v \<le> 255" "last_tag m \<le> tag" by (auto simp: e)
  define m1 where "m1 = m\<lparr>last_tag := tag,
                      hmac_context :=
                        hmac_update v
                          (hmac_update [of_nat (length v)]
                            (hmac_update [of_nat tag] (hmac_context m))),
                      fields_m := (fields_m m)(tag \<mapsto> True)\<rparr>"
  have step: "Metadata_add tag (Some v) m = Inr m1"
    using ok by (simp add: Metadata_add_def m1_def)
  have "sorted (map fst es)" using Cons.prems(1) by simp
  moreover have "\<forall>x \<in> set es. length (snd x) \<le> 255 \<and> last_tag m1 \<le> fst x"
    using Cons.prems by (auto simp: e m1_def)
  ultimately obtain m' where m': "Metadata_add_all es m1 = Inr m'"
      "hmac_context m' = hmac_update (concat (map entry_record es)) (hmac_context m1)"
    using Cons.IH by blast
  have "hmac_context m' = hmac_update (concat (map entry_record (e # es))) (hmac_context m)"
    by (simp add: m' m1_def e entry_record_def hmac_update_def)
  then show ?case using step m'(1) by (simp add: e and_then_def)
qed

text \<open>
  C5. For entries with non-decreasing tags and values of at most 255 bytes, every \<open>add\<close>
  succeeds, and the checksum is the HMAC-SHA256, under the key derived from the session
  key and the label, of the entries' records (tag byte, length byte, value) in call
  order, then the byte 255, then the payload. The right-hand side mentions only the
  key, the label, the entries and the payload: the checksum is a function of these.
\<close>

theorem TaggedChecksum_layout:
  assumes "sorted (map fst es)" and "\<forall>e \<in> set es. length (snd e) \<le> 255"
  shows "\<exists>m. Metadata_add_all es (new_Metadata (newHMAC c s label)) = Inr m
           \<and> Metadata_checksum c payload m
               = hmac_sha256 c (hmac_sha256 c (key s) (utf8 label))
                   (concat (map entry_record es) @ [255] @ payload)"
proof -
  have "\<forall>e \<in> set es. length (snd e) \<le> 255 \<and> last_tag (new_Metadata (newHMAC c s label)) \<le> fst e"
    using assms(2) by (simp add: new_Metadata_def)
  from Metadata_add_all_absorbs [OF assms(1) this]
  obtain m where m: "Metadata_add_all es (new_Metadata (newHMAC c s label)) = Inr m"
    "hmac_context m = hmac_update (concat (map entry_record es))
                        (hmac_context (new_Metadata (newHMAC c s label)))"
    by blast
  have "Metadata_checksum c payload m
               = hmac_sha256 c (hmac_sha256 c (key s) (utf8 label))
                   (concat (map entry_record es) @ [255] @ payload)"
    by (simp add: Metadata_checksum_def m(2) new_Metadata_def newHMAC_def hmac_digest_def
          hmac_update_def createHmac_def)
  with m(1) show ?thesis by blast
qed

theorem TaggedChecksum_layout_witness:
  "sorted (map fst [(0::nat, [8::byte]), (2, [65, 66]), (2, []), (6, [1, 2, 3])])
   \<and> list_all (\<lambda>e. length (snd e) \<le> 255)
         [(0::nat, [8]), (2, [65, 66]), (2, []), (6, [1, 2, 3 :: byte])]
   \<and> (\<exists>m. Metadata_add_all [(0, [8]), (2, [65, 66]), (2, []), (6, [1, 2, 3])]
              (new_Metadata (newHMAC ex_crypto (session ex_signer) ''session info'')) = Inr m
         \<and> Metadata_checksum ex_crypto [9, 9] m
             = hmac_sha256 ex_crypto
                 (hmac_sha256 ex_crypto (key (session ex_signer)) (utf8 ''session info''))
                 ([0, 1, 8, 2, 2, 65, 66, 2, 0, 6, 3, 1, 2, 3] @ [255] @ [9, 9]))"
proof -
  have h: "sorted (map fst [(0::nat, [8]), (2, [65, 66]), (2, []), (6, [1, 2, 3 :: byte])])"
    "\<forall>e \<in> set [(0::nat, [8]), (2, [65, 66]), (2, []), (6, [1, 2, 3 :: byte])]. length (snd e) \<le> 255"
    by simp_all
  show ?thesis
    using h TaggedChecksum_layout [OF h, of ex_crypto "session ex_signer" "''session info''" "[9, 9]"]
    by (simp add: entry_record_def)
qed

section \<open>Signatures\<close>

lemma writeUInt32BE_ok:
  "0 \<le> v \<Longrightarrow> v \<le> 4294967295 \<Longrightarrow> \<exists>b. writeUInt32BE v = Inr b \<and> length b = 4"
  by (simp add: writeUInt32BE_def)

lemma Metadata_add_ok:
  "last_tag m \<le> tag \<Longrightarrow> length v \<le> 255 \<Longrightarrow>
   \<exists>m'. Metadata_add tag (Some v) m = Inr m' \<and> last_tag m' = tag"
  by (simp add: Metadata_add_def)

lemma Metadata_addUint32_ok:
  "last_tag m \<le> tag \<Longrightarrow> 0 \<le> v \<Longrightarrow> v \<le> 4294967295 \<Longrightarrow>
   \<exists>m'. Metadata_addUint32 tag v m = Inr m' \<and> last_tag m' = tag"
  by (simp add: Metadata_addUint32_def writeUInt32BE_def and_then_def Metadata_add_def)

lemma generateSignature_prefix:
  assumes "command_tags_ordered p" and "length (verifierName s) \<le> 255"
  shows "\<exists>m3. last_tag m3 = TAG_PERSONALIZATION p \<and>
     fst (generateSignature c p now_ms payload d ttl s) =
       (let expiresAt = int (now_ms div 1000) + ttl - timeZero s in
         if expiresAt > EPOCH_LENGTH \<or> expiresAt < 0
         then Inl (Error ''out of bounds expiration time'')
         else
           and_then (Metadata_add (TAG_EPOCH p) (Some (epoch s)) m3) (\<lambda>m4.
           and_then (Metadata_addUint32 (TAG_EXPIRES_AT p) expiresAt m4) (\<lambda>m5.
           and_then (Metadata_addUint32 (TAG_COUNTER p) (counter s + 1) m5) (\<lambda>m6.
             Inr \<lparr>signerIdentity = Some (localPublic (session s)),
                  HMAC_Personalized_Data =
                    Some \<lparr>hp_epoch = epoch s,
                          hp_counter = counter s + 1,
                          hp_expiresAt = expiresAt,
                          hp_tag = Metadata_checksum c payload m6\<rparr>,
                  sessionInfoTag = None\<rparr>))))"
proof -
  let ?m0 = "new_Metadata (newHMAC c (session s) ''authenticated command'')"
  have l0: "last_tag ?m0 \<le> TAG_SIGNATURE_TYPE p" by (simp add: new_Metadata_def)
  obtain m1 where m1: "Metadata_add (TAG_SIGNATURE_TYPE p)
      (Some [of_nat (SIGNATURE_TYPE_HMAC_PERSONALIZED p)]) ?m0 = Inr m1"
      "last_tag m1 = TAG_SIGNATURE_TYPE p"
    using Metadata_add_ok [OF l0, of "[of_nat (SIGNATURE_TYPE_HMAC_PERSONALIZED p)]"] by auto
  have l1: "last_tag m1 \<le> TAG_DOMAIN p"
    using assms(1) m1(2) by (simp add: command_tags_ordered_def)
  obtain m2 where m2: "Metadata_add (TAG_DOMAIN p) (Some [of_nat d]) m1 = Inr m2"
      "last_tag m2 = TAG_DOMAIN p"
    using Metadata_add_ok [OF l1, of "[of_nat d]"] by auto
  have l2: "last_tag m2 \<le> TAG_PERSONALIZATION p"
    using assms(1) m2(2) by (simp add: command_tags_ordered_def)
  have "length (utf8 (verifierName s)) \<le> 255" using assms(2) by (simp add: utf8_def)
  from Metadata_add_ok [OF l2 this]
  obtain m3 where m3: "Metadata_add (TAG_PERSONALIZATION p) (Some (utf8 (verifierName s))) m2 = Inr m3"
      "last_tag m3 = TAG_PERSONALIZATION p"
    by auto
  show ?thesis
    by (rule exI [of _ m3]) (simp add: generateSignature_def Let_def m1 m2 m3 and_then_def)
qed

text \<open>
  C1, as amended. With valid other inputs (tags in the order the code adds them, a
  verifier name and an epoch of at most 255 bytes, a counter that fits 32 bits after
  the increment), \<open>generateSignature\<close> fails with the out-of-bounds error exactly when
  \<open>expiresAt = floor(now / 1000) + expiresIn - timeZero\<close> is negative or greater than
  \<open>2^30\<close>; for \<open>0 \<le> expiresAt \<le> 2^30\<close> it returns a signature that carries this
  \<open>expiresAt\<close>. So \<open>expiresAt = 2^30\<close> is accepted and \<open>2^30 + 1\<close> is the first value
  rejected.
\<close>

theorem generateSignature_expiry_bound:
  assumes "command_tags_ordered p"
    and "length (verifierName s) \<le> 255" and "length (epoch s) \<le> 255"
    and "0 \<le> counter s + 1" and "counter s + 1 \<le> 4294967295"
  shows "(fst (generateSignature c p now_ms payload d ttl s)
            = Inl (Error ''out of bounds expiration time''))
         = (int (now_ms div 1000) + ttl - timeZero s < 0
            \<or> 2 ^ 30 < int (now_ms div 1000) + ttl - timeZero s)
       \<and> (0 \<le> int (now_ms div 1000) + ttl - timeZero s
          \<and> int (now_ms div 1000) + ttl - timeZero s \<le> 2 ^ 30 \<longrightarrow>
          (\<exists>tag. fst (generateSignature c p now_ms payload d ttl s)
             = Inr \<lparr>signerIdentity = Some (localPublic (session s)),
                    HMAC_Personalized_Data =
                      Some \<lparr>hp_epoch = epoch s,
                            hp_counter = counter s + 1,
                            hp_expiresAt = int (now_ms div 1000) + ttl - timeZero s,
                            hp_tag = tag\<rparr>,
                    sessionInfoTag = None\<rparr>))"
proof -
  define expiresAt where "expiresAt = int (now_ms div 1000) + ttl - timeZero s"
  obtain m3 where m3: "last_tag m3 = TAG_PERSONALIZATION p"
    and r: "fst (generateSignature c p now_ms payload d ttl s) =
         (if expiresAt > EPOCH_LENGTH \<or> expiresAt < 0
         then Inl (Error ''out of bounds expiration time'')
         else
           and_then (Metadata_add (TAG_EPOCH p) (Some (epoch s)) m3) (\<lambda>m4.
           and_then (Metadata_addUint32 (TAG_EXPIRES_AT p) expiresAt m4) (\<lambda>m5.
           and_then (Metadata_addUint32 (TAG_COUNTER p) (counter s + 1) m5) (\<lambda>m6.
             Inr \<lparr>signerIdentity = Some (localPublic (session s)),
                  HMAC_Personalized_Data =
                    Some \<lparr>hp_epoch = epoch s,
                          hp_counter = counter s + 1,
                          hp_expiresAt = expiresAt,
                          hp_tag = Metadata_checksum c payload m6\<rparr>,
                  sessionInfoTag = None\<rparr>))))"
    using generateSignature_prefix [OF assms(1,2), of c now_ms payload d ttl]
    by (auto simp: Let_def expiresAt_def)
  have in_range: "\<exists>tag. fst (generateSignature c p now_ms payload d ttl s)
             = Inr \<lparr>signerIdentity = Some (localPublic (session s)),
                    HMAC_Personalized_Data =
                      Some \<lparr>hp_epoch = epoch s,
                            hp_counter = counter s + 1,
                            hp_expiresAt = expiresAt,
                            hp_tag = tag\<rparr>,
                    sessionInfoTag = None\<rparr>"
    if lo: "0 \<le> expiresAt" and hi: "expiresAt \<le> 2 ^ 30"
  proof -
    have l3: "last_tag m3 \<le> TAG_EPOCH p"
      using assms(1) m3 by (simp add: command_tags_ordered_def)
    obtain m4 where m4: "Metadata_add (TAG_EPOCH p) (Some (epoch s)) m3 = Inr m4"
        "last_tag m4 = TAG_EPOCH p"
      using Metadata_add_ok [OF l3 assms(3)] by auto
    have l4: "last_tag m4 \<le> TAG_EXPIRES_AT p"
      using assms(1) m4(2) by (simp add: command_tags_ordered_def)
    have "expiresAt \<le> 4294967295" using hi by simp
    from Metadata_addUint32_ok [OF l4 lo this]
    obtain m5 where m5: "Metadata_addUint32 (TAG_EXPIRES_AT p) expiresAt m4 = Inr m5"
        "last_tag m5 = TAG_EXPIRES_AT p"
      by auto
    have l5: "last_tag m5 \<le> TAG_COUNTER p"
      using assms(1) m5(2) by (simp add: command_tags_ordered_def)
    from Metadata_addUint32_ok [OF l5 assms(4,5)]
    obtain m6 where m6: "Metadata_addUint32 (TAG_COUNTER p) (counter s + 1) m5 = Inr m6"
      by auto
    show ?thesis
      using lo hi by (simp add: r m4 m5 m6 and_then_def EPOCH_LENGTH_def)
  qed
  have "(fst (generateSignature c p now_ms payload d ttl s)
            = Inl (Error ''out of bounds expiration time''))
         = (expiresAt < 0 \<or> 2 ^ 30 < expiresAt)"
  proof (cases "expiresAt < 0 \<or> 2 ^ 30 < expiresAt")
    case True
    then show ?thesis by (auto simp: r EPOCH_LENGTH_def)
  next
    case False
    then have "0 \<le> expiresAt" "expiresAt \<le> 2 ^ 30" by auto
    from in_range [OF this] show ?thesis using False by auto
  qed
  with in_range show ?thesis unfolding expiresAt_def by blast
qed

theorem generateSignature_expiry_bound_witness:
  "command_tags_ordered ex_enums
   \<and> length (verifierName ex_signer) \<le> 255 \<and> length (epoch ex_signer) \<le> 255
   \<and> 0 \<le> counter ex_signer + 1 \<and> counter ex_signer + 1 \<le> 4294967295
   \<and> fst (generateSignature ex_crypto ex_enums 1073741820000 [1, 2, 3] 3 5 ex_signer)
       = Inl (Error ''out of bounds expiration time'')
   \<and> (\<exists>tag. fst (generateSignature ex_crypto ex_enums 1073741819000 [1, 2, 3] 3 5 ex_signer)
       = Inr \<lparr>signerIdentity = Some [21],
              HMAC_Personalized_Data =
                Some \<lparr>hp_epoch = [1, 2, 3, 4, 5, 6, 7, 8, 9, 10, 11, 12, 13, 14, 15, 16],
                      hp_counter = 11, hp_expiresAt = 1073741824, hp_tag = tag\<rparr>,
              sessionInfoTag = None\<rparr>)"
proof -
  have h: "command_tags_ordered ex_enums" "length (verifierName ex_signer) \<le> 255"
    "length (epoch ex_signer) \<le> 255" "0 \<le> counter ex_signer + 1"
    "counter ex_signer + 1 \<le> 4294967295"
    by (simp_all add: command_tags_ordered_def ex_enums_def ex_signer_def)
  show ?thesis
    using h generateSignature_expiry_bound [OF h, of ex_crypto 1073741820000 "[1, 2, 3]" 3 5]
      generateSignature_expiry_bound [OF h, of ex_crypto 1073741819000 "[1, 2, 3]" 3 5]
    by (simp add: ex_signer_def)
qed

text \<open>
  The claim C1 as it is written asks for \<open>expiresAt = 2^30\<close> to be rejected. Here
  \<open>expiresAt\<close> is \<open>2^30\<close> and the call returns a signature.
\<close>

theorem generateSignature_epoch_length_accepted:
  "int (1073741819000 div 1000) + 5 - timeZero ex_signer = 2 ^ 30
   \<and> \<not> isl (fst (generateSignature ex_crypto ex_enums 1073741819000 [1, 2, 3] 3 5 ex_signer))"
  by (simp add: generateSignature_def ex_signer_def ex_enums_def ex_crypto_def Let_def
        and_then_def Metadata_add_def Metadata_addUint32_def writeUInt32BE_def new_Metadata_def
        EPOCH_LENGTH_def utf8_def)

lemma generateSignature_counter:
  "counter (snd (generateSignature c p now_ms payload d ttl s)) = counter s + 1"
  by (simp add: generateSignature_def Let_def)

lemma generateSignature_frame:
  "epoch (snd (generateSignature c p now_ms payload d ttl s)) = epoch s
   \<and> session (snd (generateSignature c p now_ms payload d ttl s)) = session s"
  by (simp add: generateSignature_def Let_def)

lemma generateSignature_seq_counters:
  "map (\<lambda>r. counter (snd r)) (generateSignature_seq c p calls s)
     = map (\<lambda>i. counter s + 1 + int i) [0..<length calls]"
proof (induction calls arbitrary: s)
  case Nil
  then show ?case by simp
next
  case (Cons call calls)
  obtain now_ms payload d ttl where call: "call = (now_ms, payload, d, ttl)"
    by (cases call) auto
  have "[0..<length (call # calls)] = 0 # map Suc [0..<length calls]"
    by (simp add: upt_conv_Cons map_Suc_upt del: upt_Suc)
  then show ?case
    by (simp add: call Cons.IH generateSignature_counter o_def del: upt_Suc)
qed

lemma generateSignature_result_counter:
  "fst (generateSignature c p now_ms payload d ttl s) = Inr sig \<Longrightarrow>
   HMAC_Personalized_Data sig = Some hp \<Longrightarrow> hp_counter hp = counter s + 1"
  by (auto simp: generateSignature_def Let_def and_then_def split: sum.splits if_splits)

lemma generateSignature_seq_epoch:
  "r \<in> set (generateSignature_seq c p calls s) \<Longrightarrow> epoch (snd r) = epoch s"
proof (induction calls arbitrary: s)
  case Nil
  then show ?case by simp
next
  case (Cons call calls)
  obtain now_ms payload d ttl where call: "call = (now_ms, payload, d, ttl)"
    by (cases call) auto
  from Cons.prems show ?case
    using Cons.IH [of "snd (generateSignature c p now_ms payload d ttl s)"]
    by (auto simp: call generateSignature_frame)
qed

lemma sorted_wrt_counters:
  "sorted_wrt (<) (map (\<lambda>i. (a::int) + int i) [0..<n])"
  by (simp add: sorted_wrt_map sorted_wrt_upt)

text \<open>
  C2. Every call of \<open>generateSignature\<close> leaves the counter one higher, whether it returns
  a signature or throws, and a signature carries the incremented value. Over any
  sequence of calls on one Signer the counters consumed are \<open>counter + 1\<close>,
  \<open>counter + 2\<close>, ... in call order: strictly increasing, never reset, failed calls
  included. The epoch stays the same.
\<close>

theorem generateSignature_counter_increases:
  "counter (snd (generateSignature c p now_ms payload d ttl s)) = counter s + 1
   \<and> (\<forall>sig hp. fst (generateSignature c p now_ms payload d ttl s) = Inr sig
        \<and> HMAC_Personalized_Data sig = Some hp \<longrightarrow> hp_counter hp = counter s + 1)
   \<and> map (\<lambda>r. counter (snd r)) (generateSignature_seq c p calls s)
       = map (\<lambda>i. counter s + 1 + int i) [0..<length calls]
   \<and> sorted_wrt (<) (counter s # map (\<lambda>r. counter (snd r)) (generateSignature_seq c p calls s))
   \<and> (\<forall>r \<in> set (generateSignature_seq c p calls s). epoch (snd r) = epoch s)"
proof -
  have "sorted_wrt (<) (counter s # map (\<lambda>r. counter (snd r)) (generateSignature_seq c p calls s))"
    unfolding generateSignature_seq_counters
    using sorted_wrt_counters [of "counter s + 1" "length calls"] by auto
  moreover have "\<forall>sig hp. fst (generateSignature c p now_ms payload d ttl s) = Inr sig
        \<and> HMAC_Personalized_Data sig = Some hp \<longrightarrow> hp_counter hp = counter s + 1"
    using generateSignature_result_counter by blast
  moreover have "\<forall>r \<in> set (generateSignature_seq c p calls s). epoch (snd r) = epoch s"
    using generateSignature_seq_epoch by blast
  ultimately show ?thesis
    using generateSignature_counter [of c p now_ms payload d ttl s]
      generateSignature_seq_counters [of c p calls s]
    by simp
qed

theorem generateSignature_counter_increases_witness:
  "map (\<lambda>r. (fst r = Inl (Error ''out of bounds expiration time''), counter (snd r)))
     (generateSignature_seq ex_crypto ex_enums
        [(1000000, [1], 3, 5), (1073741820000, [2], 3, 5), (2000000, [3], 3, 5)] ex_signer)
   = [(False, 11), (True, 12), (False, 13)]
   \<and> sorted_wrt (<) (counter ex_signer #
        map (\<lambda>r. counter (snd r)) (generateSignature_seq ex_crypto ex_enums
          [(1000000, [1], 3, 5), (1073741820000, [2], 3, 5), (2000000, [3], 3, 5)] ex_signer))"
proof -
  have "map (\<lambda>r. (fst r = Inl (Error ''out of bounds expiration time''), counter (snd r)))
     (generateSignature_seq ex_crypto ex_enums
        [(1000000, [1], 3, 5), (1073741820000, [2], 3, 5), (2000000, [3], 3, 5)] ex_signer)
   = [(False, 11), (True, 12), (False, 13)]"
    by (simp add: generateSignature_def ex_signer_def ex_enums_def ex_crypto_def Let_def
        and_then_def Metadata_add_def Metadata_addUint32_def writeUInt32BE_def new_Metadata_def
        EPOCH_LENGTH_def utf8_def)
  then show ?thesis
    using generateSignature_counter_increases [of ex_crypto ex_enums 0 "[]" 0 0 ex_signer
        "[(1000000, [1], 3, 5), (1073741820000, [2], 3, 5), (2000000, [3], 3, 5)]"]
    by blast
qed

section \<open>Key agreement\<close>

text \<open>
  What the constructor computes: when elliptic gives the shared point with x-coordinate
  \<open>x\<close>, the key is the first 16 bytes of the SHA-1 digest of
  \<open>Buffer.from(x.toString(16), 'hex')\<close>, and a failure of elliptic is a failure of the
  constructor. The key depends on the two inputs through \<open>x\<close> only, so two parties
  with the same shared x-coordinate get the same key.
\<close>

lemma AuthSession_key_of_shared_secret:
  "(\<forall>x. ecdh c (privateKey a) pub = Some x \<longrightarrow>
      AuthSession_key c a pub = Inr (take 16 (sha1 c (Buffer_from_hex (toString16 x)))))
   \<and> (ecdh c (privateKey a) pub = None \<longrightarrow> isl (AuthSession_key c a pub))
   \<and> (ecdh c (privateKey a) (publicKey b) = ecdh c (privateKey b) (publicKey a) \<longrightarrow>
        AuthSession_key c a (publicKey b) = AuthSession_key c b (publicKey a))"
  by (auto simp: AuthSession_key_def new_AuthSession_def and_then_def split: option.splits)

text \<open>
  C7. The bytes that are hashed are not an encoding of the x-coordinate when \<open>x\<close> has
  an odd number of hexadecimal digits: \<open>toString(16)\<close> writes no leading zero and
  \<open>Buffer.from(..., 'hex')\<close> drops the digit left without a partner. The number
  \<open>0x123\<close> gives the one byte \<open>0x12\<close>, as \<open>0x12\<close> does. In the stand-in exchange the
  shared x-coordinates 7 and 9 both give the empty byte string, hence the same key. An
  x-coordinate of 63 digits, as one P-256 exchange in sixteen has, gives 31 bytes that
  are those of \<open>x div 16\<close>.
\<close>

theorem AuthSession_key_drops_hex_digit:
  "toString16 291 = [1, 2, 3]
   \<and> Buffer_from_hex (toString16 291) = [18]
   \<and> Buffer_from_hex (toString16 18) = [18]
   \<and> ecdh ex_crypto [1] [7] = Some 7
   \<and> ecdh ex_crypto [1] [9] = Some 9
   \<and> Buffer_from_hex (toString16 7) = []
   \<and> AuthSession_key ex_crypto \<lparr>privateKey = [1], publicKey = [7]\<rparr> [7]
       = Inr [0, 0, 0, 0, 0, 0, 0, 0, 0, 0, 0, 0, 0, 0, 0, 0]
   \<and> AuthSession_key ex_crypto \<lparr>privateKey = [1], publicKey = [7]\<rparr> [9]
       = Inr [0, 0, 0, 0, 0, 0, 0, 0, 0, 0, 0, 0, 0, 0, 0, 0]
   \<and> length (toString16 (2 ^ 252 - 1)) = 63
   \<and> length (Buffer_from_hex (toString16 (2 ^ 252 - 1))) = 31"
  by (simp add: toString16.simps AuthSession_key_def new_AuthSession_def and_then_def
        ex_crypto_def)

section \<open>Responses\<close>

lemma sendRequest_provenance_ok:
  "provenance_ok (req_toDestination_domain req) (req_fromDestination_routingAddress req) res \<Longrightarrow>
   \<exists>u. requestUuid res = Some u \<and>
     sendRequest c p k now_ms (Inr res) req cs
       = sendRequest_dispatch c p k now_ms res u (cs\<lparr>api_sent := api_sent cs @ [(vin cs, req)]\<rparr>)"
  by (auto simp: provenance_ok_def sendRequest_def Let_def split: option.splits)

lemma sendRequest_violation:
  assumes "\<not> provenance_ok (req_toDestination_domain req)
               (req_fromDestination_routingAddress req) res"
  shows "\<exists>msg. sendRequest c p k now_ms (Inr res) req cs
           = (Inl (Error msg), cs\<lparr>api_sent := api_sent cs @ [(vin cs, req)]\<rparr>)"
  using assms
  by (auto simp: provenance_ok_def sendRequest_def Let_def split: option.splits)

lemma sendRequest_dispatch_api_sent:
  "sendRequest_dispatch c p k now_ms res u (cs\<lparr>api_sent := l\<rparr>)
     = (fst (sendRequest_dispatch c p k now_ms res u cs),
        (snd (sendRequest_dispatch c p k now_ms res u cs))\<lparr>api_sent := l\<rparr>)"
  by (simp add: sendRequest_dispatch_def split: option.splits sum.splits bool.splits)

lemma sendRequest_uuid_unused:
  "fst (sendRequest c p k now_ms reply (req\<lparr>req_uuid := u\<rparr>) cs)
     = fst (sendRequest c p k now_ms reply req cs)
   \<and> signer (snd (sendRequest c p k now_ms reply (req\<lparr>req_uuid := u\<rparr>) cs))
     = signer (snd (sendRequest c p k now_ms reply req cs))"
  by (simp add: sendRequest_def Let_def sendRequest_dispatch_api_sent
        split: option.splits sum.splits)

text \<open>
  C4. A response that breaks one of the three conditions (source domain equal to the
  domain the request was sent to, destination routing address equal to the address the
  request was sent from, a request identifier present) makes \<open>#sendRequest\<close> throw an
  Error and leaves the Signer as it was; a response that meets them goes on to be
  interpreted. What \<open>#sendRequest\<close> returns and the Signer it leaves do not depend on the
  identifier that was sent, which is never compared. So \<open>startSession\<close> on a session
  without Signer fails and leaves it without Signer when the response breaks a
  condition, with the message \<open>Invalid source domain\<close> when the source domain is not
  the one asked for.
\<close>

theorem sendRequest_checks_response:
  "(\<not> provenance_ok (req_toDestination_domain req) (req_fromDestination_routingAddress req) res
      \<longrightarrow> (\<exists>msg. fst (sendRequest c p k now_ms (Inr res) req cs) = Inl (Error msg))
          \<and> signer (snd (sendRequest c p k now_ms (Inr res) req cs)) = signer cs)
   \<and> (provenance_ok (req_toDestination_domain req) (req_fromDestination_routingAddress req) res
      \<longrightarrow> (\<exists>u. requestUuid res = Some u
            \<and> sendRequest c p k now_ms (Inr res) req cs
                = sendRequest_dispatch c p k now_ms res u
                    (cs\<lparr>api_sent := api_sent cs @ [(vin cs, req)]\<rparr>)))
   \<and> fst (sendRequest c p k now_ms reply (req\<lparr>req_uuid := u'\<rparr>) cs)
       = fst (sendRequest c p k now_ms reply req cs)
   \<and> signer (snd (sendRequest c p k now_ms reply (req\<lparr>req_uuid := u'\<rparr>) cs))
       = signer (snd (sendRequest c p k now_ms reply req cs))
   \<and> (signer cs = None \<and> \<not> provenance_ok (DOMAIN_INFOTAINMENT p) addr res
      \<longrightarrow> (\<exists>msg. fst (startSession c p k now_ms addr uuid (Inr res) cs) = Inl (Error msg))
          \<and> signer (snd (startSession c p k now_ms addr uuid (Inr res) cs)) = None)
   \<and> (\<forall>src. signer cs = None \<and> fromDestination res = Some src
          \<and> domain src \<noteq> Some (DOMAIN_INFOTAINMENT p)
      \<longrightarrow> fst (startSession c p k now_ms addr uuid (Inr res) cs)
            = Inl (Error ''Invalid source domain'')
          \<and> signer (snd (startSession c p k now_ms addr uuid (Inr res) cs)) = None)"
proof -
  have a: "(\<exists>msg. fst (sendRequest c p k now_ms (Inr res) req cs) = Inl (Error msg))
          \<and> signer (snd (sendRequest c p k now_ms (Inr res) req cs)) = signer cs"
    if "\<not> provenance_ok (req_toDestination_domain req) (req_fromDestination_routingAddress req) res"
    using sendRequest_violation [OF that, of c p k now_ms cs] by auto
  have b: "(\<exists>msg. fst (startSession c p k now_ms addr uuid (Inr res) cs) = Inl (Error msg))
          \<and> signer (snd (startSession c p k now_ms addr uuid (Inr res) cs)) = None"
    if "signer cs = None" "\<not> provenance_ok (DOMAIN_INFOTAINMENT p) addr res"
  proof -
    let ?req = "\<lparr>req_toDestination_domain = DOMAIN_INFOTAINMENT p,
              req_fromDestination_routingAddress = addr,
              req_sessionInfoRequest = Some (publicKey (privateKey_cs cs)),
              req_protobufMessageAsBytes = None,
              req_signatureData = None,
              req_uuid = uuid,
              req_flags = None\<rparr>"
    have "\<not> provenance_ok (req_toDestination_domain ?req)
               (req_fromDestination_routingAddress ?req) res"
      using that(2) by simp
    from sendRequest_violation [OF this, of c p k now_ms cs]
    show ?thesis using that(1) by (auto simp: startSession_def)
  qed
  have d: "fst (startSession c p k now_ms addr uuid (Inr res) cs)
            = Inl (Error ''Invalid source domain'')
          \<and> signer (snd (startSession c p k now_ms addr uuid (Inr res) cs)) = None"
    if "signer cs = None" "fromDestination res = Some src"
      "domain src \<noteq> Some (DOMAIN_INFOTAINMENT p)" for src
    using that by (auto simp: startSession_def sendRequest_def Let_def split: option.splits)
  show ?thesis
    using a b d sendRequest_provenance_ok [where req = req and res = res and cs = cs]
      sendRequest_uuid_unused [where reply = reply and req = req and u = u' and cs = cs]
    by blast
qed

theorem sendRequest_checks_response_witness:
  "signer (new_CarServer ''5YJ3E1EA7JF000001'' ex_key) = None
   \<and> fromDestination ((ex_handshake_reply [1, 2, 3, 4])\<lparr>fromDestination :=
          Some \<lparr>domain = Some 2, routingAddress = None\<rparr>\<rparr>)
       = Some \<lparr>domain = Some 2, routingAddress = None\<rparr>
   \<and> domain \<lparr>domain = Some 2, routingAddress = None\<rparr> \<noteq> Some (DOMAIN_INFOTAINMENT ex_enums)
   \<and> fst (startSession ex_crypto ex_enums ex_codec 1000000 [7, 7, 7, 7] [9, 9, 9, 9]
        (Inr ((ex_handshake_reply [1, 2, 3, 4])\<lparr>fromDestination :=
           Some \<lparr>domain = Some 2, routingAddress = None\<rparr>\<rparr>))
        (new_CarServer ''5YJ3E1EA7JF000001'' ex_key))
       = Inl (Error ''Invalid source domain'')
   \<and> signer (snd (startSession ex_crypto ex_enums ex_codec 1000000 [7, 7, 7, 7] [9, 9, 9, 9]
        (Inr ((ex_handshake_reply [1, 2, 3, 4])\<lparr>fromDestination :=
           Some \<lparr>domain = Some 2, routingAddress = None\<rparr>\<rparr>))
        (new_CarServer ''5YJ3E1EA7JF000001'' ex_key)))
       = None"
proof -
  have h: "signer (new_CarServer ''5YJ3E1EA7JF000001'' ex_key) = None"
    "fromDestination ((ex_handshake_reply [1, 2, 3, 4])\<lparr>fromDestination :=
          Some \<lparr>domain = Some 2, routingAddress = None\<rparr>\<rparr>)
       = Some \<lparr>domain = Some 2, routingAddress = None\<rparr>"
    "domain \<lparr>domain = Some 2, routingAddress = None\<rparr> \<noteq> Some (DOMAIN_INFOTAINMENT ex_enums)"
    by (simp_all add: new_CarServer_def ex_enums_def)
  show ?thesis
    using h sendRequest_checks_response [where res = "(ex_handshake_reply [1, 2, 3, 4])\<lparr>fromDestination :=
          Some \<lparr>domain = Some 2, routingAddress = None\<rparr>\<rparr>" and c = ex_crypto and p = ex_enums
          and k = ex_codec and now_ms = 1000000
          and cs = "new_CarServer ''5YJ3E1EA7JF000001'' ex_key"
          and addr = "[7, 7, 7, 7]" and uuid = "[9, 9, 9, 9]"]
    by blast
qed

section \<open>The handshake\<close>

text \<open>
  With the tags in order and a verifier name and challenge of at most 255 bytes,
  \<open>validateSessionInfo\<close> compares the tag it is given with the checksum of the three
  entries and the encoded session info; with 32-byte digests, a tag of 32 bytes that
  differs gives \<open>false\<close>, and a tag of another length makes \<open>timingSafeEqual\<close> throw.
\<close>

lemma validateSessionInfo_eq:
  assumes "handshake_tags_ordered p"
    and "length (verifierName s) \<le> 255" and "length challenge \<le> 255"
  shows "validateSessionInfo c p encodedSessionInfo challenge tag s
       = timingSafeEqual
           (hmac_sha256 c (hmac_sha256 c (key (session s)) (utf8 ''session info''))
              (entry_record (TAG_SIGNATURE_TYPE p, [of_nat (SIGNATURE_TYPE_HMAC p)])
               @ entry_record (TAG_PERSONALIZATION p, utf8 (verifierName s))
               @ entry_record (TAG_CHALLENGE p, challenge)
               @ [255] @ encodedSessionInfo))
           tag"
  using assms
  by (simp add: validateSessionInfo_def handshake_tags_ordered_def and_then_def Metadata_add_def
        new_Metadata_def utf8_def entry_record_def Metadata_checksum_def newHMAC_def
        createHmac_def hmac_update_def hmac_digest_def)

lemma validateSessionInfo_mismatch:
  assumes "handshake_tags_ordered p"
    and "length (verifierName s) \<le> 255" and "length challenge \<le> 255"
    and "\<forall>k m. length (hmac_sha256 c k m) = 32"
  shows "length tag = 32 \<Longrightarrow>
           validateSessionInfo c p encodedSessionInfo challenge tag s
             = Inr (tag = hmac_sha256 c (hmac_sha256 c (key (session s)) (utf8 ''session info''))
              (entry_record (TAG_SIGNATURE_TYPE p, [of_nat (SIGNATURE_TYPE_HMAC p)])
               @ entry_record (TAG_PERSONALIZATION p, utf8 (verifierName s))
               @ entry_record (TAG_CHALLENGE p, challenge)
               @ [255] @ encodedSessionInfo))"
    and "length tag \<noteq> 32 \<Longrightarrow>
           validateSessionInfo c p encodedSessionInfo challenge tag s
             = Inl (RangeError ''Input buffers must have the same byte length'')"
  unfolding validateSessionInfo_eq [OF assms(1,2,3)]
  using assms(4) by (auto simp: timingSafeEqual_def)

lemma sendRequest_dispatch_handshake:
  assumes "sessionInfo res = Some info_bytes" and "signatureData res = Some sd"
    and "sessionInfoTag sd = Some t" and "sit_tag t = Some tag"
    and "sessionInfoProto_decode k info_bytes = Some info"
    and "new_Signer c now_ms (privateKey_cs cs) (vin cs) info = Inr sg"
  shows "sendRequest_dispatch c p k now_ms res uuid cs
       = (case validateSessionInfo c p info_bytes uuid tag sg of
            Inl e \<Rightarrow> (Inl e, cs\<lparr>signer := Some sg\<rparr>)
          | Inr False \<Rightarrow> (Inl (Error ''Session info hmac invalid''), cs\<lparr>signer := None\<rparr>)
          | Inr True \<Rightarrow> (Inr (SessionInfoResult info), cs\<lparr>signer := Some sg\<rparr>))"
  using assms by (simp add: sendRequest_dispatch_def)

text \<open>
  C3. The handshake response here carries a tag of four bytes. \<open>#sendRequest\<close> has
  stored the new Signer before it validates; \<open>timingSafeEqual\<close> throws on the length,
  the assignment \<open>this.signer = null\<close> of the mismatch branch is not reached, and
  \<open>startSession\<close> fails with the RangeError while the Signer built from the unvalidated
  session info stays installed: the command that follows is signed and sent.
\<close>

theorem startSession_wrong_length_tag_keeps_signer:
  "fst (startSession ex_crypto ex_enums ex_codec 1000000 [7, 7, 7, 7] [9, 9, 9, 9]
          (Inr (ex_handshake_reply [1, 2, 3, 4])) (new_CarServer ''5YJ3E1EA7JF000001'' ex_key))
     = Inl (RangeError ''Input buffers must have the same byte length'')
   \<and> signer (snd (startSession ex_crypto ex_enums ex_codec 1000000 [7, 7, 7, 7] [9, 9, 9, 9]
          (Inr (ex_handshake_reply [1, 2, 3, 4])) (new_CarServer ''5YJ3E1EA7JF000001'' ex_key)))
     = Some \<lparr>session = \<lparr>key = [105, 0, 0, 0, 0, 0, 0, 0, 0, 0, 0, 0, 0, 0, 0, 0],
                         localPublic = [21]\<rparr>,
             verifierName = ''5YJ3E1EA7JF000001'',
             timeZero = 900,
             epoch = [1, 2, 3, 4, 5, 6, 7, 8, 9, 10, 11, 12, 13, 14, 15, 16],
             counter = 10\<rparr>
   \<and> fst (requestAction ex_crypto ex_enums ex_codec 2000000 2001000 [7, 7, 7, 7] [9, 9, 9, 9]
          (Inr (ex_command_reply [0])) (chargingSetLimitAction 80)
          (snd (startSession ex_crypto ex_enums ex_codec 1000000 [7, 7, 7, 7] [9, 9, 9, 9]
             (Inr (ex_handshake_reply [1, 2, 3, 4]))
             (new_CarServer ''5YJ3E1EA7JF000001'' ex_key))))
     = Inr ()"
  by (simp add: ex_key_def ex_codec_def ex_command_reply_def
        ex_handshake_reply_def ex_ok_response_def ex_crypto_def ex_enums_def
        generateSignature_def Let_def and_then_def Metadata_add_def Metadata_addUint32_def
        writeUInt32BE_def new_Metadata_def EPOCH_LENGTH_def utf8_def new_CarServer_def
        sendRequest_def sendRequest_dispatch_def startSession_def requestAction_def
        requestAction_status_def new_Signer_def new_AuthSession_def validateSessionInfo_def
        timingSafeEqual_def Metadata_checksum_def newHMAC_def createHmac_def hmac_update_def
        hmac_digest_def toString16.simps)

section \<open>Commands\<close>

text \<open>
  C9. Without a Signer, \<open>#requestAction\<close> throws \<open>Session not started\<close> and the CarServer
  is as before: nothing was sent (\<open>api_sent\<close> is unchanged) and there is no Signer whose
  counter could have moved.
\<close>

theorem requestAction_session_not_started:
  "signer cs = None \<Longrightarrow>
   requestAction c p k now_sign now_ms addr uuid reply action cs
     = (Inl (Error ''Session not started''), cs)"
  by (simp add: requestAction_def)

theorem requestAction_session_not_started_witness:
  "signer (new_CarServer ''5YJ3E1EA7JF000001'' ex_key) = None
   \<and> requestAction ex_crypto ex_enums ex_codec 1700000000000 1700000001000 [7, 7, 7, 7]
        [9, 9, 9, 9] (Inr (ex_command_reply [0])) (chargingSetLimitAction 80)
        (new_CarServer ''5YJ3E1EA7JF000001'' ex_key)
       = (Inl (Error ''Session not started''),
          \<lparr>api_sent = [], vin = ''5YJ3E1EA7JF000001'', privateKey_cs = ex_key, signer = None\<rparr>)"
proof -
  have h: "signer (new_CarServer ''5YJ3E1EA7JF000001'' ex_key) = None"
    by (simp add: new_CarServer_def)
  show ?thesis
    using h requestAction_session_not_started [OF h, of ex_crypto ex_enums ex_codec
        1700000000000 1700000001000 "[7, 7, 7, 7]" "[9, 9, 9, 9]" "Inr (ex_command_reply [0])"
        "chargingSetLimitAction 80"]
    by (simp add: new_CarServer_def)
qed

lemma sendRequest_command_response:
  assumes "command_response p k (req_fromDestination_routingAddress req) res r"
    and "req_toDestination_domain req = DOMAIN_INFOTAINMENT p"
  shows "sendRequest c p k now_ms (Inr res) req cs
       = (Inr (ResponseResult r), cs\<lparr>api_sent := api_sent cs @ [(vin cs, req)]\<rparr>)"
proof -
  from assms have ok:
    "provenance_ok (req_toDestination_domain req) (req_fromDestination_routingAddress req) res"
    by (simp add: command_response_def)
  from sendRequest_provenance_ok [OF ok]
  obtain u where u: "sendRequest c p k now_ms (Inr res) req cs
       = sendRequest_dispatch c p k now_ms res u (cs\<lparr>api_sent := api_sent cs @ [(vin cs, req)]\<rparr>)"
    by blast
  show ?thesis using assms(1)
    by (auto simp: u sendRequest_dispatch_def command_response_def split: option.splits)
qed

lemma requestAction_command_response:
  assumes "signer cs = Some sg"
    and "\<not> isl (fst (generateSignature c p now_sign (actionProto_encode k action)
                      (DOMAIN_INFOTAINMENT p) 5 sg))"
    and "command_response p k addr res r"
  shows "fst (requestAction c p k now_sign now_ms addr uuid (Inr res) action cs)
       = requestAction_status (ResponseResult r)"
proof -
  obtain x sg' where g: "generateSignature c p now_sign (actionProto_encode k action)
                      (DOMAIN_INFOTAINMENT p) 5 sg = (x, sg')"
    by (cases "generateSignature c p now_sign (actionProto_encode k action)
                      (DOMAIN_INFOTAINMENT p) 5 sg") 
  with assms(2) obtain sig where x: "x = Inr sig" by (cases x) auto
  show ?thesis
    using assms(1,3)
    by (simp add: requestAction_def Let_def g x sendRequest_command_response)
qed

lemma ex_generateSignature_ok:
  "\<not> isl (fst (generateSignature ex_crypto ex_enums 1000000
               (actionProto_encode ex_codec (chargingSetLimitAction 80))
               (DOMAIN_INFOTAINMENT ex_enums) 5 ex_signer))"
  by (simp add: ex_signer_def ex_codec_def ex_crypto_def ex_enums_def generateSignature_def
        Let_def and_then_def Metadata_add_def Metadata_addUint32_def writeUInt32BE_def
        new_Metadata_def EPOCH_LENGTH_def utf8_def)

lemma ex_command_response:
  "command_response ex_enums ex_codec [7, 7, 7, 7] (ex_command_reply [1]) ex_error_response"
  "command_response ex_enums ex_codec [7, 7, 7, 7] (ex_command_reply [0]) ex_ok_response"
  "command_response ex_enums ex_codec [7, 7, 7, 7] (ex_command_reply []) \<lparr>actionStatus = None\<rparr>"
  by (simp_all add: command_response_def provenance_ok_def ex_command_reply_def ex_enums_def
        ex_codec_def)

text \<open>
  C8. For a session with a Signer whose signature succeeds and a command response that
  carries a status: status OK returns normally; status ERROR with a plain-text reason
  throws an Error whose message is that text; status ERROR with a reason that has no
  plain text, or with no reason, and a status that is neither OK nor ERROR throw an
  Error with a fixed message.
\<close>

theorem requestAction_status_decoding:
  assumes "signer cs = Some sg"
    and "\<not> isl (fst (generateSignature c p now_sign (actionProto_encode k action)
                      (DOMAIN_INFOTAINMENT p) 5 sg))"
    and "command_response p k addr res r"
    and "actionStatus r = Some st"
  shows "(result st = Some OPERATIONSTATUS_OK \<longrightarrow>
            fst (requestAction c p k now_sign now_ms addr uuid (Inr res) action cs) = Inr ())
       \<and> (\<forall>reason t. result st = Some OPERATIONSTATUS_ERROR \<and> resultReason st = Some reason
             \<and> plainText reason = Some t \<longrightarrow>
            fst (requestAction c p k now_sign now_ms addr uuid (Inr res) action cs)
              = Inl (Error t))
       \<and> (\<forall>reason. result st = Some OPERATIONSTATUS_ERROR \<and> resultReason st = Some reason
             \<and> plainText reason = None \<longrightarrow>
            fst (requestAction c p k now_sign now_ms addr uuid (Inr res) action cs)
              = Inl (Error ''Unknown result Reason''))
       \<and> (result st = Some OPERATIONSTATUS_ERROR \<and> resultReason st = None \<longrightarrow>
            fst (requestAction c p k now_sign now_ms addr uuid (Inr res) action cs)
              = Inl (Error ''Unknown error''))
       \<and> (\<forall>n. result st = Some (OPERATIONSTATUS_unrecognized n) \<longrightarrow>
            fst (requestAction c p k now_sign now_ms addr uuid (Inr res) action cs)
              = Inl (Error ''Invalid CarServer action result''))"
  unfolding requestAction_command_response [OF assms(1,2,3)]
  using assms(4)
  by (simp add: requestAction_status_def decodeError_def and_then_def)

theorem requestAction_status_decoding_witness:
  "signer ex_car = Some ex_signer
   \<and> fst (requestAction ex_crypto ex_enums ex_codec 1000000 1001000 [7, 7, 7, 7] [9, 9, 9, 9]
        (Inr (ex_command_reply [1])) (chargingSetLimitAction 80) ex_car)
       = Inl (Error ''precondition_failed'')
   \<and> fst (requestAction ex_crypto ex_enums ex_codec 1000000 1001000 [7, 7, 7, 7] [9, 9, 9, 9]
        (Inr (ex_command_reply [0])) (chargingSetLimitAction 80) ex_car)
       = Inr ()"
proof -
  have s: "signer ex_car = Some ex_signer" by (simp add: ex_car_def)
  have e: "actionStatus ex_error_response
       = Some \<lparr>result = Some OPERATIONSTATUS_ERROR,
              resultReason = Some \<lparr>plainText = Some ''precondition_failed''\<rparr>\<rparr>"
    by (simp add: ex_error_response_def)
  have k: "actionStatus ex_ok_response
       = Some \<lparr>result = Some OPERATIONSTATUS_OK, resultReason = None\<rparr>"
    by (simp add: ex_ok_response_def)
  show ?thesis
    using s
      requestAction_status_decoding [OF s ex_generateSignature_ok ex_command_response(1) e,
        of 1001000 "[9, 9, 9, 9]"]
      requestAction_status_decoding [OF s ex_generateSignature_ok ex_command_response(2) k,
        of 1001000 "[9, 9, 9, 9]"]
    by simp
qed

text \<open>
  C10. For the same kind of response, when the decoded payload has no \<open>actionStatus\<close>, or
  an \<open>actionStatus\<close> without \<open>result\<close>, the call returns normally, as it does for
  status OK.
\<close>

theorem requestAction_without_status:
  assumes "signer cs = Some sg"
    and "\<not> isl (fst (generateSignature c p now_sign (actionProto_encode k action)
                      (DOMAIN_INFOTAINMENT p) 5 sg))"
    and "command_response p k addr res r"
    and "actionStatus r = None \<or> (\<exists>st. actionStatus r = Some st \<and> result st = None)"
  shows "fst (requestAction c p k now_sign now_ms addr uuid (Inr res) action cs) = Inr ()"
  unfolding requestAction_command_response [OF assms(1,2,3)]
  using assms(4)
  by (auto simp: requestAction_status_def)

theorem requestAction_without_status_witness:
  "signer ex_car = Some ex_signer
   \<and> command_response ex_enums ex_codec [7, 7, 7, 7] (ex_command_reply []) \<lparr>actionStatus = None\<rparr>
   \<and> fst (requestAction ex_crypto ex_enums ex_codec 1000000 1001000 [7, 7, 7, 7] [9, 9, 9, 9]
        (Inr (ex_command_reply [])) (chargingSetLimitAction 80) ex_car)
       = Inr ()"
proof -
  have s: "signer ex_car = Some ex_signer" by (simp add: ex_car_def)
  have n: "actionStatus \<lparr>actionStatus = None\<rparr> = None
           \<or> (\<exists>st. actionStatus \<lparr>actionStatus = None\<rparr> = Some st \<and> result st = None)"
    by simp
  show ?thesis
    using s ex_command_response(3)
      requestAction_without_status [OF s ex_generateSignature_ok ex_command_response(3) n,
        of 1001000 "[9, 9, 9, 9]"]
    by simp
qed

end
